theory Spec2Isabelle
  imports Main "HOL-Library.Word"
begin

section \<open>JavaScript values and failures\<close>

text \<open>
  The SDK is TypeScript, but every chain response is read through \<^verbatim>\<open>as any\<close>,
  so the code runs on untyped JavaScript values. A response of an RPC node is a parsed
  JSON document; \<open>JUndefined\<close> is the value of a property that is not there.
  Numbers are integers: the chains render no fractional number.
  A \<open>JObj\<close> lists the object's own properties; where a key stands twice the first
  binding is the property.
\<close>

type_synonym byte = "8 word"

datatype json =
    JUndefined
  | JNull
  | JBool bool
  | JNum int
  | JStr string
  | JArr "json list"
  | JObj "(string \<times> json) list"

text \<open>
  What a call can throw (or a promise reject with). \<open>Error m\<close> is
  \<^verbatim>\<open>new Error(m)\<close>, the only error class the source itself constructs.
  \<open>TypeError\<close> and \<open>RangeError\<close> are thrown by the JavaScript runtime and by the
  libraries (their messages depend on the engine and are left out),
  \<open>ParsingError\<close> by the Aptos SDK's hex parser, and \<open>RpcError\<close> stands for
  a rejection of the chain client (transport or node error).
\<close>

datatype js_error =
    Error string
  | TypeError
  | RangeError
  | ParsingError
  | RpcError string

type_synonym 'a result = "js_error + 'a"

text \<open>Sequencing of statements that may throw: the first failure is the outcome.\<close>

definition bindE :: "'a result \<Rightarrow> ('a \<Rightarrow> 'b result) \<Rightarrow> 'b result" where
  "bindE r f = (case r of Inl e \<Rightarrow> Inl e | Inr x \<Rightarrow> f x)"

text \<open>
  \<^verbatim>\<open>v.k\<close>: a property read. On \<^verbatim>\<open>undefined\<close> and \<^verbatim>\<open>null\<close> it throws a
  TypeError; on an object it is the own property or \<^verbatim>\<open>undefined\<close>; on an array or a
  string only \<^verbatim>\<open>length\<close> is modelled. None of the property names the source reads
  (error, data, content, dataType, fields, objectId, resolver, rules, config, schema, name,
  description, url, creator, revokable, created_at, tx_hash, inner, id, version, value,
  schema_records, digest, hash, ...) is defined on a built-in prototype, so the own
  properties decide.
\<close>

fun js_get :: "json \<Rightarrow> string \<Rightarrow> json result" where
  "js_get JUndefined k = Inl TypeError"
| "js_get JNull k = Inl TypeError"
| "js_get (JObj kvs) k = Inr (case map_of kvs k of Some v \<Rightarrow> v | None \<Rightarrow> JUndefined)"
| "js_get (JArr xs) k = Inr (if k = ''length'' then JNum (int (length xs)) else JUndefined)"
| "js_get (JStr s) k = Inr (if k = ''length'' then JNum (int (length s)) else JUndefined)"
| "js_get (JBool b) k = Inr JUndefined"
| "js_get (JNum n) k = Inr JUndefined"

text \<open>\<^verbatim>\<open>v?.k\<close>: optional chaining gives \<^verbatim>\<open>undefined\<close> where \<^verbatim>\<open>v.k\<close> would throw.\<close>

fun js_get_opt :: "json \<Rightarrow> string \<Rightarrow> json" where
  "js_get_opt JUndefined k = JUndefined"
| "js_get_opt JNull k = JUndefined"
| "js_get_opt v k = (case js_get v k of Inl e \<Rightarrow> JUndefined | Inr x \<Rightarrow> x)"

text \<open>\<^verbatim>\<open>v[0]\<close>, the only index the source reads.\<close>

fun index0 :: "json \<Rightarrow> json result" where
  "index0 JUndefined = Inl TypeError"
| "index0 JNull = Inl TypeError"
| "index0 (JArr xs) = Inr (case xs of [] \<Rightarrow> JUndefined | x # _ \<Rightarrow> x)"
| "index0 (JStr s) = Inr (case s of [] \<Rightarrow> JUndefined | c # _ \<Rightarrow> JStr [c])"
| "index0 (JObj kvs) = Inr (case map_of kvs ''0'' of Some v \<Rightarrow> v | None \<Rightarrow> JUndefined)"
| "index0 (JBool b) = Inr JUndefined"
| "index0 (JNum n) = Inr JUndefined"

text \<open>
  Truthiness, as \<^verbatim>\<open>if (v)\<close>, \<^verbatim>\<open>!v\<close> and \<^verbatim>\<open>a && b\<close> read a value: every array
  and every object is truthy, the empty ones included.
\<close>

fun truthy :: "json \<Rightarrow> bool" where
  "truthy JUndefined = False"
| "truthy JNull = False"
| "truthy (JBool b) = b"
| "truthy (JNum n) = (n \<noteq> 0)"
| "truthy (JStr s) = (s \<noteq> [])"
| "truthy (JArr xs) = True"
| "truthy (JObj kvs) = True"

section \<open>Network configuration (src/utils.ts)\<close>










section \<open>Library calls of the source\<close>

text \<open>
  \<^verbatim>\<open>a.b.c\<close>: a chain of property reads, failing at the first read of
  \<^verbatim>\<open>undefined\<close> or \<^verbatim>\<open>null\<close>.
\<close>

fun js_path :: "json \<Rightarrow> string list \<Rightarrow> json result" where
  "js_path v [] = Inr v"
| "js_path v (k # ks) = bindE (js_get v k) (\<lambda>w. js_path w ks)"

text \<open>
  The source hands chain values to three library functions: \<^verbatim>\<open>new Uint8Array(v)\<close>,
  \<^verbatim>\<open>bs58.encode(v)\<close> and the interpolation \<^verbatim>\<open>${v}\<close> of a template string.
  On an array of integers, which is how a node renders a \<^verbatim>\<open>vector<u8>\<close>, the first
  two are defined below as the libraries compute them. What they do on any other value
  (coercions of strings and objects) is a parameter of the model, and so is the text an
  interpolated value prints as.
\<close>

record js_runtime =
  ToString :: "json \<Rightarrow> string"
  Uint8Array_other :: "json \<Rightarrow> byte list result"
  bs58_other :: "json \<Rightarrow> string result"

text \<open>An element of an integer array as a byte: ToUint8 is the value modulo 256.\<close>

fun byte_of :: "json \<Rightarrow> byte option" where
  "byte_of (JNum n) = Some (word_of_int n)"
| "byte_of _ = None"

fun bytes_of :: "json \<Rightarrow> byte list option" where
  "bytes_of (JArr xs) = those (map byte_of xs)"
| "bytes_of _ = None"

definition Uint8Array_new :: "js_runtime \<Rightarrow> json \<Rightarrow> byte list result" where
  "Uint8Array_new rt v =
     (case bytes_of v of Some bs \<Rightarrow> Inr bs | None \<Rightarrow> Uint8Array_other rt v)"

text \<open>
  Base58 with the Bitcoin alphabet, as the \<^verbatim>\<open>bs58\<close> package encodes: one
  \<^verbatim>\<open>1\<close> for every leading zero byte, then the digits to base 58 of the bytes read as
  a big-endian number.
\<close>

definition ALPHABET :: string where
  "ALPHABET = ''123456789ABCDEFGHJKLMNPQRSTUVWXYZabcdefghijkmnopqrstuvwxyz''"

function base58_digits :: "nat \<Rightarrow> nat list \<Rightarrow> nat list" where
  "base58_digits n acc = (if n = 0 then acc else base58_digits (n div 58) (n mod 58 # acc))"
  by pat_completeness auto
termination
  by (relation "measure (\<lambda>(n, acc). n)") auto

definition nat_of_bytes :: "byte list \<Rightarrow> nat" where
  "nat_of_bytes bs = foldl (\<lambda>a b. a * 256 + unat b) 0 bs"

definition base58 :: "byte list \<Rightarrow> string" where
  "base58 bs =
     replicate (length (takeWhile (\<lambda>b. b = 0) bs)) (CHR ''1'') @
     map (\<lambda>d. ALPHABET ! d) (base58_digits (nat_of_bytes bs) [])"

definition bs58_encode :: "js_runtime \<Rightarrow> json \<Rightarrow> string result" where
  "bs58_encode rt v =
     (case bytes_of v of Some bs \<Rightarrow> Inr (base58 bs) | None \<Rightarrow> bs58_other rt v)"

text \<open>
  \<^verbatim>\<open>Hex.fromHexString(v).toUint8Array()\<close> of the Aptos SDK: an optional
  \<^verbatim>\<open>0x\<close>, then an even, positive number of hexadecimal digits; anything else is a
  ParsingError. A value that is not a string has no \<^verbatim>\<open>startsWith\<close>: a TypeError.
\<close>

definition hex_digit :: "char \<Rightarrow> nat option" where
  "hex_digit c =
     (let n = of_char c :: nat in
      if 48 \<le> n \<and> n \<le> 57 then Some (n - 48)
      else if 97 \<le> n \<and> n \<le> 102 then Some (n - 87)
      else if 65 \<le> n \<and> n \<le> 70 then Some (n - 55)
      else None)"

fun hexToBytes :: "string \<Rightarrow> byte list option" where
  "hexToBytes [] = Some []"
| "hexToBytes [c] = None"
| "hexToBytes (c # d # cs) =
     (case (hex_digit c, hex_digit d, hexToBytes cs) of
        (Some h, Some l, Some bs) \<Rightarrow> Some (of_nat (16 * h + l) # bs)
      | _ \<Rightarrow> None)"

definition Hex_fromHexString :: "json \<Rightarrow> byte list result" where
  "Hex_fromHexString v =
     (case v of
        JStr str \<Rightarrow>
          (let input = (if take 2 str = ''0x'' then drop 2 str else str) in
           if input = [] then Inl ParsingError
           else if odd (length input) then Inl ParsingError
           else (case hexToBytes input of None \<Rightarrow> Inl ParsingError | Some bs \<Rightarrow> Inr bs))
      | _ \<Rightarrow> Inl TypeError)"

text \<open>
  \<^verbatim>\<open>Promise.all\<close>: fulfilled with all the values, in the order of the promises, when
  every promise is fulfilled; rejected as soon as one is. Which rejection it reports
  depends on the timing of the fetches; the model takes the first in array order.
\<close>

fun promise_all :: "'a result list \<Rightarrow> 'a list result" where
  "promise_all [] = Inr []"
| "promise_all (Inl e # rs) = Inl e"
| "promise_all (Inr x # rs) = (case promise_all rs of Inl e \<Rightarrow> Inl e | Inr xs \<Rightarrow> Inr (x # xs))"

section \<open>The Sui client and the helpers of src/sui/utils\<close>

text \<open>
  A programmable transaction as the write path builds it: the commands in order, each
  argument an object reference, a pure value, or the result of an earlier command.
\<close>

datatype tx_argument =
    TxObject string
  | PureVectorU8 "byte list"
  | PureString string
  | PureBool bool
  | TxResult nat
  | TxNestedResult nat nat

datatype tx_command =
    MoveCall string "tx_argument list"
  | TransferObjects "tx_argument list" string

type_synonym transaction = "tx_command list"

text \<open>The signer, an Ed25519 keypair; the code reads its Sui address.\<close>

record ed25519_keypair =
  toSuiAddress :: string

text \<open>
  The calls of \<^verbatim>\<open>SuiClient\<close> the source makes, each answering with the node's
  JSON or rejecting. \<open>getObject\<close> takes the id and the options set to true;
  \<open>getDynamicFields\<close> the parent id and the cursor (\<^verbatim>\<open>undefined\<close> where the caller
  passes none); \<open>getDynamicFieldObject\<close> the parent id and the type and value of the
  field's name; \<open>waitForTransaction\<close> the digest and the options set to true. The
  answers are functions of the arguments: the chain does not change while one operation
  of the SDK runs.
\<close>

record sui_client =
  getObject :: "json \<Rightarrow> string list \<Rightarrow> json result"
  getDynamicFields :: "json \<Rightarrow> json \<Rightarrow> json result"
  getDynamicFieldObject :: "json \<Rightarrow> string \<Rightarrow> json \<Rightarrow> json result"
  signAndExecuteTransaction :: "ed25519_keypair \<Rightarrow> transaction \<Rightarrow> json result"
  waitForTransaction :: "json \<Rightarrow> string list \<Rightarrow> json result"

text \<open>
  src/sui/schema.ts imports \<^verbatim>\<open>getClient\<close>, \<^verbatim>\<open>getPackageId\<close>,
  \<^verbatim>\<open>getSchemaRegistryId\<close> and \<^verbatim>\<open>getSchemaRegistryTableId\<close> from
  \<^verbatim>\<open>./utils\<close> with the arguments (chain, network). That file is not among the
  sources (src/utils.ts holds one-argument functions), so the four helpers are
  parameters; each may throw.
\<close>

record sui_utils =
  utils_getClient :: "string \<Rightarrow> string \<Rightarrow> sui_client result"
  utils_getPackageId :: "string \<Rightarrow> string \<Rightarrow> string result"
  utils_getSchemaRegistryId :: "string \<Rightarrow> string \<Rightarrow> string result"
  utils_getSchemaRegistryTableId :: "string \<Rightarrow> string \<Rightarrow> json result"

section \<open>The read path of src/sui/schema.ts\<close>

text \<open>
  \<^verbatim>\<open>interface SuiSchema\<close>. The fields copied from the chain are whatever the node
  sent; \<open>schema\<close> is a \<^verbatim>\<open>Uint8Array\<close> and \<open>txHash\<close> the string
  \<^verbatim>\<open>bs58.encode\<close> returned. \<open>resolver\<close> is \<^verbatim>\<open>null\<close> or the object
  \<^verbatim>\<open>{rules, config}\<close>.
\<close>

record SuiSchema =
  sui_schemaAddr :: json
  sui_name :: json
  sui_description :: json
  sui_url :: json
  sui_creator :: json
  sui_createdAt :: json
  sui_schema :: "byte list"
  sui_revokable :: json
  sui_resolver :: json
  sui_txHash :: string

record Version =
  ver_id :: json
  ver_version :: json

record SchemaRegistry =
  reg_id :: json
  reg_version :: Version

text \<open>
  Lines 240 to 246 of getSchema: \<^verbatim>\<open>null\<close> unless \<^verbatim>\<open>fields.resolver\<close> and
  \<^verbatim>\<open>fields.resolver.fields\<close> are both truthy.
\<close>

definition getSchema_resolver :: "json \<Rightarrow> json result" where
  "getSchema_resolver flds =
     bindE (js_get flds ''resolver'') (\<lambda>r.
       if \<not> truthy r then Inr JNull
       else bindE (js_get r ''fields'') (\<lambda>rf.
         if \<not> truthy rf then Inr JNull
         else bindE (js_get rf ''rules'') (\<lambda>rules.
              bindE (js_get rf ''config'') (\<lambda>config.
                Inr (JObj [(''rules'', rules), (''config'', config)])))))"

definition getSchema :: "js_runtime \<Rightarrow> sui_utils \<Rightarrow> json \<Rightarrow> string \<Rightarrow> string \<Rightarrow> SuiSchema result" where
  "getSchema rt u obj_id chain network =
     bindE (utils_getClient u chain network) (\<lambda>client.
     bindE (getObject client obj_id
              [''showContent'', ''showType'', ''showOwner'', ''showPreviousTransaction'']) (\<lambda>response.
     bindE (js_get response ''error'') (\<lambda>err.
       if truthy err then Inl (Error (''Failed to fetch object: '' @ ToString rt err))
       else
     bindE (js_get response ''data'') (\<lambda>object.
       if \<not> truthy object then Inl (Error ''Invalid object data'')
       else
     bindE (js_get object ''content'') (\<lambda>content.
       if \<not> truthy content then Inl (Error ''Invalid object data'')
       else
     bindE (js_get content ''dataType'') (\<lambda>dataType.
       if dataType \<noteq> JStr ''moveObject'' then Inl (Error ''Invalid object data'')
       else
     bindE (js_get content ''fields'') (\<lambda>fields.
     bindE (getSchema_resolver fields) (\<lambda>resolver.
     bindE (js_get object ''objectId'') (\<lambda>objectId.
     bindE (bindE (js_get fields ''schema'') (Uint8Array_new rt)) (\<lambda>schema.
     bindE (js_get fields ''name'') (\<lambda>name.
     bindE (js_get fields ''description'') (\<lambda>description.
     bindE (js_get fields ''url'') (\<lambda>url.
     bindE (js_get fields ''creator'') (\<lambda>creator.
     bindE (js_get fields ''revokable'') (\<lambda>revokable.
     bindE (js_get fields ''created_at'') (\<lambda>created_at.
     bindE (bindE (js_get fields ''tx_hash'') (bs58_encode rt)) (\<lambda>tx_hash.
       Inr \<lparr> sui_schemaAddr = objectId, sui_name = name, sui_description = description,
             sui_url = url, sui_creator = creator, sui_createdAt = created_at,
             sui_schema = schema, sui_revokable = revokable, sui_resolver = resolver,
             sui_txHash = tx_hash \<rparr>)))))))))))))))))"

definition getSchemaRegistry :: "js_runtime \<Rightarrow> sui_utils \<Rightarrow> string \<Rightarrow> string \<Rightarrow> SchemaRegistry result" where
  "getSchemaRegistry rt u chain network =
     bindE (utils_getClient u chain network) (\<lambda>client.
     bindE (utils_getSchemaRegistryId u chain network) (\<lambda>schemaRegistryId.
     bindE (getObject client (JStr schemaRegistryId) [''showContent'', ''showType'']) (\<lambda>response.
     bindE (js_get response ''error'') (\<lambda>err.
       if truthy err then Inl (Error (''Failed to fetch object: '' @ ToString rt err))
       else
     bindE (js_get response ''data'') (\<lambda>object.
     bindE (js_path object [''content'', ''fields'']) (\<lambda>fields.
     bindE (js_get object ''objectId'') (\<lambda>objectId.
     bindE (js_path fields [''inner'', ''fields'', ''id'', ''id'']) (\<lambda>vid.
     bindE (js_path fields [''inner'', ''fields'', ''version'']) (\<lambda>version.
       Inr \<lparr> reg_id = objectId,
             reg_version = \<lparr> ver_id = vid, ver_version = version \<rparr> \<rparr>)))))))))"

text \<open>
  The body of the arrow function getSchemas maps over the listing: read the table item,
  take its \<^verbatim>\<open>name\<close> as the schema id, fetch the schema.
\<close>

definition getSchemas_item :: "js_runtime \<Rightarrow> sui_utils \<Rightarrow> sui_client \<Rightarrow> string \<Rightarrow> string \<Rightarrow> json \<Rightarrow> SuiSchema result" where
  "getSchemas_item rt u client chain network dataItem =
     bindE (js_get dataItem ''objectId'') (\<lambda>objectId.
     bindE (getObject client objectId [''showContent'', ''showType'']) (\<lambda>tableItem.
     bindE (js_get tableItem ''data'') (\<lambda>data.
     bindE (js_path (js_get_opt data ''content'') [''fields'', ''name'']) (\<lambda>schemaId.
       getSchema rt u schemaId chain network))))"

text \<open>
  getSchemas calls \<^verbatim>\<open>getDynamicFields\<close> once, with the parent id alone, and maps
  over \<^verbatim>\<open>tableData.data\<close>; a value that is not an array has no \<^verbatim>\<open>map\<close>.
\<close>

definition getSchemas :: "js_runtime \<Rightarrow> sui_utils \<Rightarrow> string \<Rightarrow> string \<Rightarrow> SuiSchema list result" where
  "getSchemas rt u chain network =
     bindE (utils_getClient u chain network) (\<lambda>client.
     bindE (utils_getSchemaRegistryTableId u chain network) (\<lambda>tableId.
     bindE (getDynamicFields client tableId JUndefined) (\<lambda>tableData.
     bindE (js_get tableData ''data'') (\<lambda>data.
       case data of
         JArr items \<Rightarrow> promise_all (map (getSchemas_item rt u client chain network) items)
       | _ \<Rightarrow> Inl TypeError))))"

definition getSchemaRegistryTable :: "js_runtime \<Rightarrow> sui_utils \<Rightarrow> string \<Rightarrow> string \<Rightarrow> json result" where
  "getSchemaRegistryTable rt u chain network =
     bindE (utils_getClient u chain network) (\<lambda>client.
     bindE (getSchemaRegistry rt u chain network) (\<lambda>schemaRegistry.
     bindE (getDynamicFieldObject client (ver_id (reg_version schemaRegistry)) ''u64''
              (ver_version (reg_version schemaRegistry))) (\<lambda>res.
     bindE (js_get res ''data'') (\<lambda>data.
       js_path (js_get_opt data ''content'')
         [''fields'', ''value'', ''fields'', ''schema_records'', ''fields'', ''id'', ''id'']))))"

section \<open>The read functions of src/aptos/aas.ts\<close>

text \<open>An argument of an entry or view function, as the source passes it.\<close>

datatype aptos_arg =
    ArgBytes "byte list"
  | ArgString string
  | ArgBool bool
  | ArgNumber int

record Account =
  accountAddress :: string

text \<open>
  The calls of the \<^verbatim>\<open>Aptos\<close> client the source makes: \<open>view\<close> and
  \<open>build_simple\<close> (\<^verbatim>\<open>transaction.build.simple\<close>) take the function's name and its
  arguments, the latter also the sender; \<open>signAndSubmitTransaction\<close> the signer and the
  built transaction; \<open>aptos_waitForTransaction\<close> the transaction hash.
\<close>

record aptos_client =
  view :: "string \<Rightarrow> aptos_arg list \<Rightarrow> json result"
  build_simple :: "string \<Rightarrow> string \<Rightarrow> aptos_arg list \<Rightarrow> json result"
  signAndSubmitTransaction :: "Account \<Rightarrow> json \<Rightarrow> json result"
  aptos_waitForTransaction :: "json \<Rightarrow> json result"

text \<open>
  \<^verbatim>\<open>getPackageAddress\<close> comes from \<^verbatim>\<open>./utils\<close> of the aptos directory, which is
  not among the sources, and \<^verbatim>\<open>new Aptos(new AptosConfig({network}))\<close> from the Aptos
  SDK: both are parameters.
\<close>

record aptos_env =
  getPackageAddress :: "string \<Rightarrow> string \<Rightarrow> string result"
  new_Aptos :: "string \<Rightarrow> aptos_client"

text \<open>
  \<^verbatim>\<open>AptosSchema\<close> and \<^verbatim>\<open>AptosAttestation\<close> are declared in \<^verbatim>\<open>./types\<close>, not
  among the sources; the fields are those of the object literals the two read functions
  return. \<open>schema\<close> and \<open>data\<close> are byte arrays, the rest is copied from the
  view's answer.
\<close>

record AptosSchema =
  apt_schemaAddr :: string
  apt_name :: json
  apt_description :: json
  apt_url :: json
  apt_creator :: json
  apt_createdAt :: json
  apt_schema :: "byte list"
  apt_revokable :: json
  apt_resolver :: json
  apt_txHash :: json

record AptosAttestation =
  att_attestationAddr :: string
  att_attestor :: json
  att_recipient :: json
  att_schemaAddr :: json
  att_refAttestation :: json
  att_time :: json
  att_expirationTime :: json
  att_revocationTime :: json
  att_revokable :: json
  att_data :: "byte list"
  att_txHash :: json

definition getAptosSchema :: "aptos_env \<Rightarrow> string \<Rightarrow> string \<Rightarrow> AptosSchema result" where
  "getAptosSchema env network schemaAddr =
     (let aptosClient = new_Aptos env network in
      bindE (getPackageAddress env ''aptos'' network) (\<lambda>packageId.
      bindE (view aptosClient (packageId @ ''::schema::schema_data'') [ArgString schemaAddr]) (\<lambda>schemas.
        if \<not> truthy schemas then Inl (Error ''Schema not found'')
        else
      bindE (index0 schemas) (\<lambda>schema.
      bindE (js_get schema ''name'') (\<lambda>name.
      bindE (js_get schema ''description'') (\<lambda>description.
      bindE (js_get schema ''url'') (\<lambda>url.
      bindE (js_get schema ''creator'') (\<lambda>creator.
      bindE (js_get schema ''created_at'') (\<lambda>created_at.
      bindE (bindE (js_get schema ''schema'') Hex_fromHexString) (\<lambda>schema_bytes.
      bindE (js_get schema ''revokable'') (\<lambda>revokable.
      bindE (js_get schema ''resolver'') (\<lambda>resolver.
      bindE (js_get schema ''tx_hash'') (\<lambda>tx_hash.
        Inr \<lparr> apt_schemaAddr = schemaAddr, apt_name = name, apt_description = description,
              apt_url = url, apt_creator = creator, apt_createdAt = created_at,
              apt_schema = schema_bytes, apt_revokable = revokable, apt_resolver = resolver,
              apt_txHash = tx_hash \<rparr>)))))))))))))"

definition getAptosAttestation :: "aptos_env \<Rightarrow> string \<Rightarrow> string \<Rightarrow> AptosAttestation result" where
  "getAptosAttestation env network attestationAddr =
     (let aptosClient = new_Aptos env network in
      bindE (getPackageAddress env ''aptos'' network) (\<lambda>packageId.
      bindE (view aptosClient (packageId @ ''::attestation::attestation_data'')
               [ArgString attestationAddr]) (\<lambda>res.
        if \<not> truthy res then Inl (Error ''Attestation not found'')
        else
      bindE (index0 res) (\<lambda>attestation.
      bindE (js_get attestation ''attestor'') (\<lambda>attestor.
      bindE (js_get attestation ''recipient'') (\<lambda>recipient.
      bindE (js_get attestation ''schema'') (\<lambda>schema.
      bindE (js_get attestation ''ref_attestation'') (\<lambda>ref_attestation.
      bindE (js_get attestation ''time'') (\<lambda>time.
      bindE (js_get attestation ''expiration_time'') (\<lambda>expiration_time.
      bindE (js_get attestation ''revocation_time'') (\<lambda>revocation_time.
      bindE (js_get attestation ''revokable'') (\<lambda>revokable.
      bindE (bindE (js_get attestation ''data'') Hex_fromHexString) (\<lambda>data.
      bindE (js_get attestation ''tx_hash'') (\<lambda>tx_hash.
        Inr \<lparr> att_attestationAddr = attestationAddr, att_attestor = attestor,
              att_recipient = recipient, att_schemaAddr = schema,
              att_refAttestation = ref_attestation, att_time = time,
              att_expirationTime = expiration_time, att_revocationTime = revocation_time,
              att_revokable = revokable, att_data = data, att_txHash = tx_hash \<rparr>))))))))))))))"

section \<open>A small chain to run the operations on\<close>

text \<open>
  A Sui node with a schema registry \<^verbatim>\<open>0xREG\<close> whose versioned inner object
  \<^verbatim>\<open>0xINNER\<close> holds, under the \<^verbatim>\<open>u64\<close> key 1, the records table
  \<^verbatim>\<open>0xTABLE\<close>; under the key 3 it holds a field of the wrong shape, under other
  keys nothing. The table has two entries, for the schemas \<^verbatim>\<open>0xSCHEMA_A\<close> (no
  resolver) and \<^verbatim>\<open>0xSCHEMA_B\<close> (with a resolver), and the node lists them one per
  page. The version the registry points at and the first page of the listing are
  parameters, to build a registry with a stale pointer and a table with a broken entry.
\<close>

definition example_runtime :: js_runtime where
  "example_runtime =
     \<lparr> ToString = (\<lambda>v. ''[object Object]''),
       Uint8Array_other = (\<lambda>v. Inr []),
       bs58_other = (\<lambda>v. Inl TypeError) \<rparr>"

definition not_found_response :: json where
  "not_found_response = JObj [(''error'', JObj [(''code'', JStr ''notExists'')])]"

definition registry_response :: "json \<Rightarrow> json" where
  "registry_response version =
     JObj [(''data'', JObj
       [(''objectId'', JStr ''0xREG''),
        (''content'', JObj
          [(''dataType'', JStr ''moveObject''),
           (''fields'', JObj
             [(''id'', JObj [(''id'', JStr ''0xREG'')]),
              (''inner'', JObj [(''fields'', JObj
                 [(''id'', JObj [(''id'', JStr ''0xINNER'')]),
                  (''version'', version)])])])])])]"

definition table_field_response :: json where
  "table_field_response =
     JObj [(''data'', JObj [(''content'', JObj [(''fields'', JObj [(''value'', JObj
       [(''fields'', JObj [(''schema_records'', JObj
          [(''fields'', JObj [(''id'', JObj [(''id'', JStr ''0xTABLE'')])])])])])])])])]"

text \<open>A dynamic field that is there, but whose content has no \<^verbatim>\<open>value\<close>.\<close>

definition malformed_field_response :: json where
  "malformed_field_response =
     JObj [(''data'', JObj [(''content'', JObj [(''fields'', JObj [(''name'', JStr ''3'')])])])]"

definition table_item_response :: "string \<Rightarrow> json" where
  "table_item_response key =
     JObj [(''data'', JObj [(''content'', JObj [(''fields'', JObj [(''name'', JStr key)])])])]"

definition schema_fields :: "json \<Rightarrow> json \<Rightarrow> json \<Rightarrow> json" where
  "schema_fields payload resolver tx_hash =
     JObj [(''name'', JStr ''profile''),
           (''description'', JStr ''a test schema''),
           (''url'', JStr ''https://example.org''),
           (''creator'', JStr ''0xCREATOR''),
           (''created_at'', JStr ''1700000000000''),
           (''schema'', payload),
           (''revokable'', JBool False),
           (''resolver'', resolver),
           (''tx_hash'', tx_hash)]"

definition schema_response :: "string \<Rightarrow> json \<Rightarrow> json" where
  "schema_response addr flds =
     JObj [(''data'', JObj
       [(''objectId'', JStr addr),
        (''content'', JObj [(''dataType'', JStr ''moveObject''), (''fields'', flds)])])]"

definition example_resolver :: json where
  "example_resolver =
     JObj [(''type'', JStr ''0xPKG::resolver::Resolver''),
           (''fields'', JObj [(''rules'', JArr [JStr ''start_attest'']),
                              (''config'', JStr ''0xCONFIG'')])]"

definition fields_A :: json where
  "fields_A = schema_fields (JArr [JNum 1, JNum 2, JNum 3]) JNull (JArr [JNum 171])"

definition fields_B :: json where
  "fields_B = schema_fields (JArr [JNum 0, JNum 255]) example_resolver (JArr [JNum 0, JNum 171])"

definition page_one :: json where
  "page_one = JObj [(''data'', JArr [JObj [(''objectId'', JStr ''0xITEM_A'')]]),
                    (''nextCursor'', JStr ''0xITEM_A''),
                    (''hasNextPage'', JBool True)]"

definition page_two :: json where
  "page_two = JObj [(''data'', JArr [JObj [(''objectId'', JStr ''0xITEM_B'')]]),
                    (''nextCursor'', JNull),
                    (''hasNextPage'', JBool False)]"

definition page_broken :: json where
  "page_broken = JObj [(''data'', JArr [JObj [(''objectId'', JStr ''0xITEM_A'')],
                                        JObj [(''objectId'', JStr ''0xITEM_GONE'')]]),
                       (''nextCursor'', JNull),
                       (''hasNextPage'', JBool False)]"

definition chain_client :: "json \<Rightarrow> json \<Rightarrow> sui_client" where
  "chain_client version first_page =
     \<lparr> getObject = (\<lambda>obj_id options.
         if obj_id = JStr ''0xREG'' then Inr (registry_response version)
         else if obj_id = JStr ''0xITEM_A'' then Inr (table_item_response ''0xSCHEMA_A'')
         else if obj_id = JStr ''0xITEM_B'' then Inr (table_item_response ''0xSCHEMA_B'')
         else if obj_id = JStr ''0xSCHEMA_A''
           then Inr (schema_response ''0xSCHEMA_A'' fields_A)
         else if obj_id = JStr ''0xSCHEMA_B''
           then Inr (schema_response ''0xSCHEMA_B'' fields_B)
         else Inr not_found_response),
       getDynamicFields = (\<lambda>parentId cursor.
         if parentId = JStr ''0xTABLE'' \<and> cursor = JUndefined then Inr first_page
         else if parentId = JStr ''0xTABLE'' \<and> cursor = JStr ''0xITEM_A'' then Inr page_two
         else Inr (JObj [(''data'', JArr []), (''nextCursor'', JNull), (''hasNextPage'', JBool False)])),
       getDynamicFieldObject = (\<lambda>parentId name_type name_value.
         if parentId = JStr ''0xINNER'' \<and> name_type = ''u64'' \<and> name_value = JStr ''1''
         then Inr table_field_response
         else if parentId = JStr ''0xINNER'' \<and> name_type = ''u64'' \<and> name_value = JStr ''3''
         then Inr malformed_field_response
         else Inr (JObj [(''error'', JObj [(''code'', JStr ''dynamicFieldNotFound'')])])),
       signAndExecuteTransaction = (\<lambda>signer tx. Inr (JObj [(''digest'', JStr ''DIGEST1'')])),
       waitForTransaction = (\<lambda>digest options.
         Inr (JObj [(''digest'', digest),
                    (''effects'', JObj [(''status'', JObj [(''status'', JStr ''success'')])])])) \<rparr>"

definition example_client :: sui_client where
  "example_client = chain_client (JStr ''1'') page_one"

definition utils_for :: "sui_client \<Rightarrow> sui_utils" where
  "utils_for client =
     \<lparr> utils_getClient = (\<lambda>chain network.
         if chain = ''sui'' \<and> network = ''testnet'' then Inr client
         else Inl (Error ''Invalid network'')),
       utils_getPackageId = (\<lambda>chain network. Inr ''0xPKG''),
       utils_getSchemaRegistryId = (\<lambda>chain network. Inr ''0xREG''),
       utils_getSchemaRegistryTableId = (\<lambda>chain network. Inr (JStr ''0xTABLE'')) \<rparr>"

definition example_utils :: sui_utils where
  "example_utils = utils_for example_client"

text \<open>The entities the two schema objects decode to.\<close>

definition schema_A :: SuiSchema where
  "schema_A =
     \<lparr> sui_schemaAddr = JStr ''0xSCHEMA_A'', sui_name = JStr ''profile'',
       sui_description = JStr ''a test schema'', sui_url = JStr ''https://example.org'',
       sui_creator = JStr ''0xCREATOR'', sui_createdAt = JStr ''1700000000000'',
       sui_schema = [1, 2, 3], sui_revokable = JBool False, sui_resolver = JNull,
       sui_txHash = ''3x'' \<rparr>"

definition schema_B :: SuiSchema where
  "schema_B =
     \<lparr> sui_schemaAddr = JStr ''0xSCHEMA_B'', sui_name = JStr ''profile'',
       sui_description = JStr ''a test schema'', sui_url = JStr ''https://example.org'',
       sui_creator = JStr ''0xCREATOR'', sui_createdAt = JStr ''1700000000000'',
       sui_schema = [0, 255], sui_revokable = JBool False,
       sui_resolver = JObj [(''rules'', JArr [JStr ''start_attest'']), (''config'', JStr ''0xCONFIG'')],
       sui_txHash = ''13x'' \<rparr>"

section \<open>Notions the properties are stated with\<close>

text \<open>
  An on-chain resolver value that has inner fields: an object whose \<^verbatim>\<open>fields\<close>
  property is there and is not an empty (falsy) value. A resolver that is absent
  (\<^verbatim>\<open>undefined\<close>, or the \<^verbatim>\<open>null\<close> a node renders an empty option as) has none.
\<close>

definition has_inner_fields :: "json \<Rightarrow> bool" where
  "has_inner_fields r =
     (case r of
        JObj kvs \<Rightarrow> (case map_of kvs ''fields'' of Some inner \<Rightarrow> truthy inner | None \<Rightarrow> False)
      | _ \<Rightarrow> False)"


text \<open>
  The listing of a table as the specification words it: the entries of all its pages,
  following the continuation cursor of each page until a page reports no next one. The
  bound is on the number of pages read; a listing longer than the bound is not reported.
\<close>

fun entries_of_all_pages :: "nat \<Rightarrow> sui_client \<Rightarrow> json \<Rightarrow> json \<Rightarrow> json list option" where
  "entries_of_all_pages 0 client parentId cursor = None"
| "entries_of_all_pages (Suc n) client parentId cursor =
     (case getDynamicFields client parentId cursor of
        Inl e \<Rightarrow> None
      | Inr page \<Rightarrow>
          (case js_get_opt page ''data'' of
             JArr items \<Rightarrow>
               if truthy (js_get_opt page ''hasNextPage'')
               then map_option (\<lambda>rest. items @ rest)
                      (entries_of_all_pages n client parentId (js_get_opt page ''nextCursor''))
               else Some items
           | _ \<Rightarrow> None))"

section \<open>A small Aptos node to run the operations on\<close>

text \<open>
  The view functions answer with a one-element array for the schema \<^verbatim>\<open>0xSCHEMA\<close>
  and the attestation \<^verbatim>\<open>0xATT\<close>, with the empty array for \<^verbatim>\<open>0xEMPTY\<close>, and
  abort for every other address. Byte vectors come as hex strings.
\<close>

definition example_view_schema :: json where
  "example_view_schema =
     JArr [JObj [(''name'', JStr ''profile''),
                 (''description'', JStr ''a test schema''),
                 (''url'', JStr ''https://example.org''),
                 (''creator'', JStr ''0xCREATOR''),
                 (''created_at'', JStr ''1700000000''),
                 (''schema'', JStr ''0x010203''),
                 (''revokable'', JBool False),
                 (''resolver'', JStr ''0x0''),
                 (''tx_hash'', JStr ''0xab'')]]"

definition example_view_attestation :: json where
  "example_view_attestation =
     JArr [JObj [(''attestor'', JStr ''0xATTESTOR''),
                 (''recipient'', JStr ''0xRECIPIENT''),
                 (''schema'', JStr ''0xSCHEMA''),
                 (''ref_attestation'', JStr ''0x0''),
                 (''time'', JStr ''1700000001''),
                 (''expiration_time'', JStr ''0''),
                 (''revocation_time'', JStr ''0''),
                 (''revokable'', JBool True),
                 (''data'', JStr ''0xff00''),
                 (''tx_hash'', JStr ''0xcd'')]]"

definition example_aptos_client :: aptos_client where
  "example_aptos_client =
     \<lparr> view = (\<lambda>func args.
         if args = [ArgString ''0xEMPTY''] then Inr (JArr [])
         else if func = ''0xAAS::schema::schema_data'' \<and> args = [ArgString ''0xSCHEMA'']
           then Inr example_view_schema
         else if func = ''0xAAS::attestation::attestation_data'' \<and> args = [ArgString ''0xATT'']
           then Inr example_view_attestation
         else Inl (RpcError ''Move abort'')),
       build_simple = (\<lambda>sender func args. Inr (JObj [(''sender'', JStr sender), (''function'', JStr func)])),
       signAndSubmitTransaction = (\<lambda>signer transaction. Inr (JObj [(''hash'', JStr ''0xHASH'')])),
       aptos_waitForTransaction = (\<lambda>h. Inr (JObj [(''hash'', h), (''success'', JBool True)])) \<rparr>"

definition example_aptos_env :: aptos_env where
  "example_aptos_env =
     \<lparr> getPackageAddress = (\<lambda>chain network.
         if chain = ''aptos'' \<and> network = ''testnet'' then Inr ''0xAAS''
         else Inl (Error ''Invalid network'')),
       new_Aptos = (\<lambda>network. example_aptos_client) \<rparr>"

definition example_aptos_schema :: AptosSchema where
  "example_aptos_schema =
     \<lparr> apt_schemaAddr = ''0xSCHEMA'', apt_name = JStr ''profile'',
       apt_description = JStr ''a test schema'', apt_url = JStr ''https://example.org'',
       apt_creator = JStr ''0xCREATOR'', apt_createdAt = JStr ''1700000000'',
       apt_schema = [1, 2, 3], apt_revokable = JBool False, apt_resolver = JStr ''0x0'',
       apt_txHash = JStr ''0xab'' \<rparr>"


section \<open>Chains with a defect\<close>

text \<open>
  \<open>broken_utils\<close>: the table lists an entry whose object is gone.
  \<open>stale_utils\<close>: the registry points at version 2, for which the inner object has
  no dynamic field. \<open>malformed_utils\<close>: the registry points at version 3, whose
  dynamic field is there but does not have the shape of a records table.
\<close>

definition broken_client :: sui_client where
  "broken_client = chain_client (JStr ''1'') page_broken"

definition broken_utils :: sui_utils where
  "broken_utils = utils_for broken_client"

definition stale_client :: sui_client where
  "stale_client = chain_client (JStr ''2'') page_one"

definition stale_utils :: sui_utils where
  "stale_utils = utils_for stale_client"

definition malformed_client :: sui_client where
  "malformed_client = chain_client (JStr ''3'') page_one"

definition malformed_utils :: sui_utils where
  "malformed_utils = utils_for malformed_client"


section \<open>Properties of the network configuration\<close>




section \<open>Sequencing and property reads\<close>

lemma bindE_Inr [simp]: "bindE (Inr x) f = f x"
  by (simp add: bindE_def)

lemma bindE_Inl [simp]: "bindE (Inl e) f = Inl e"
  by (simp add: bindE_def)

lemma bindE_Inr_iff: "bindE r f = Inr y \<longleftrightarrow> (\<exists>x. r = Inr x \<and> f x = Inr y)"
  by (cases r) simp_all

lemma js_get_opt_eq: "js_get v k = Inr w \<Longrightarrow> js_get_opt v k = w"
  by (cases v) simp_all

lemma js_get_error: "js_get v k = Inl e \<Longrightarrow> e = TypeError"
  by (cases v) simp_all

lemma getSchema_InrD:
  assumes "getSchema rt u obj_id chain network = Inr s"
  obtains client response object content flds where
    "utils_getClient u chain network = Inr client"
    "getObject client obj_id
       [''showContent'', ''showType'', ''showOwner'', ''showPreviousTransaction''] = Inr response"
    "js_get response ''data'' = Inr object"
    "js_get object ''content'' = Inr content"
    "js_get content ''dataType'' = Inr (JStr ''moveObject'')"
    "js_get content ''fields'' = Inr flds"
    "getSchema_resolver flds = Inr (sui_resolver s)"
    "bindE (js_get flds ''schema'') (Uint8Array_new rt) = Inr (sui_schema s)"
    "bindE (js_get flds ''tx_hash'') (bs58_encode rt) = Inr (sui_txHash s)"
  using assms unfolding getSchema_def
  by (auto simp: bindE_Inr_iff split: if_splits)

lemma getSchema_resolver_eq:
  assumes "getSchema_resolver flds = Inr r"
  shows "r = (if has_inner_fields (js_get_opt flds ''resolver'')
              then JObj [(''rules'', js_get_opt (js_get_opt (js_get_opt flds ''resolver'') ''fields'') ''rules''),
                         (''config'', js_get_opt (js_get_opt (js_get_opt flds ''resolver'') ''fields'') ''config'')]
              else JNull)"
  using assms unfolding getSchema_resolver_def has_inner_fields_def
  by (auto simp: bindE_Inr_iff js_get_opt_eq split: if_splits json.splits option.splits)

section \<open>The resolver of a fetched schema\<close>

text \<open>
  Claim C10. For every object getSchema fetches and decodes, with \<open>flds\<close> the
  \<^verbatim>\<open>content.fields\<close> of the node's answer: the resolver of the returned entity is
  \<^verbatim>\<open>null\<close> exactly when the on-chain \<^verbatim>\<open>resolver\<close> field is absent or has no
  inner fields, and otherwise it is the object \<^verbatim>\<open>{rules, config}\<close> whose two
  components are the \<^verbatim>\<open>rules\<close> and \<^verbatim>\<open>config\<close> of the resolver's inner fields,
  unchanged.
\<close>

theorem resolver_decoding:
  assumes "getSchema rt u obj_id chain network = Inr s"
      and "utils_getClient u chain network = Inr client"
      and "getObject client obj_id
             [''showContent'', ''showType'', ''showOwner'', ''showPreviousTransaction''] = Inr response"
      and "js_path response [''data'', ''content'', ''fields''] = Inr flds"
  shows "(sui_resolver s = JNull \<longleftrightarrow> \<not> has_inner_fields (js_get_opt flds ''resolver'')) \<and>
         (has_inner_fields (js_get_opt flds ''resolver'') \<longrightarrow>
            sui_resolver s =
              JObj [(''rules'', js_get_opt (js_get_opt (js_get_opt flds ''resolver'') ''fields'') ''rules''),
                    (''config'', js_get_opt (js_get_opt (js_get_opt flds ''resolver'') ''fields'') ''config'')])"
proof -
  from assms(1) obtain client' response' object content flds' where
    c: "utils_getClient u chain network = Inr client'" and
    r: "getObject client' obj_id
       [''showContent'', ''showType'', ''showOwner'', ''showPreviousTransaction''] = Inr response'" and
    d: "js_get response' ''data'' = Inr object" "js_get object ''content'' = Inr content"
       "js_get content ''fields'' = Inr flds'" and
    res: "getSchema_resolver flds' = Inr (sui_resolver s)"
    by (rule getSchema_InrD)
  from c r assms(2,3) have same: "response' = response" by simp
  from d same assms(4) have "flds' = flds"
    by simp
  with getSchema_resolver_eq [OF res] show ?thesis
    by simp
qed

theorem resolver_decoding_witness:
  "getSchema example_runtime example_utils (JStr ''0xSCHEMA_B'') ''sui'' ''testnet'' = Inr schema_B \<and>
   sui_resolver schema_B = JObj [(''rules'', JArr [JStr ''start_attest'']), (''config'', JStr ''0xCONFIG'')] \<and>
   getSchema example_runtime example_utils (JStr ''0xSCHEMA_A'') ''sui'' ''testnet'' = Inr schema_A \<and>
   sui_resolver schema_A = JNull"
proof -
  have a: "getSchema example_runtime example_utils (JStr ''0xSCHEMA_A'') ''sui'' ''testnet'' = Inr schema_A"
    by code_simp
  have b: "getSchema example_runtime example_utils (JStr ''0xSCHEMA_B'') ''sui'' ''testnet'' = Inr schema_B"
    by code_simp
  have c: "utils_getClient example_utils ''sui'' ''testnet'' = Inr example_client"
    by (simp add: example_utils_def utils_for_def)
  have ra: "getObject example_client (JStr ''0xSCHEMA_A'')
      [''showContent'', ''showType'', ''showOwner'', ''showPreviousTransaction''] =
      Inr (schema_response ''0xSCHEMA_A'' fields_A)"
    by (simp add: example_client_def chain_client_def)
  have rb: "getObject example_client (JStr ''0xSCHEMA_B'')
      [''showContent'', ''showType'', ''showOwner'', ''showPreviousTransaction''] =
      Inr (schema_response ''0xSCHEMA_B'' fields_B)"
    by (simp add: example_client_def chain_client_def)
  have pa: "js_path (schema_response ''0xSCHEMA_A'' fields_A) [''data'', ''content'', ''fields''] = Inr fields_A"
    and pb: "js_path (schema_response ''0xSCHEMA_B'' fields_B) [''data'', ''content'', ''fields''] = Inr fields_B"
    by (simp_all add: schema_response_def)
  have ha: "\<not> has_inner_fields (js_get_opt fields_A ''resolver'')"
    by code_simp
  have hb: "has_inner_fields (js_get_opt fields_B ''resolver'')"
    by code_simp
  have vb: "js_get_opt (js_get_opt (js_get_opt fields_B ''resolver'') ''fields'') ''rules'' = JArr [JStr ''start_attest'']"
    "js_get_opt (js_get_opt (js_get_opt fields_B ''resolver'') ''fields'') ''config'' = JStr ''0xCONFIG''"
    by code_simp+
  from resolver_decoding [OF a c ra pa] ha have "sui_resolver schema_A = JNull"
    by simp
  moreover from resolver_decoding [OF b c rb pb] hb vb
  have "sui_resolver schema_B = JObj [(''rules'', JArr [JStr ''start_attest'']), (''config'', JStr ''0xCONFIG'')]"
    by simp
  ultimately show ?thesis using a b by simp
qed


section \<open>The transaction hash of a fetched schema\<close>

lemma getAptosSchema_InrD:
  assumes "getAptosSchema env network schemaAddr = Inr a"
  obtains packageId schemas schema where
    "getPackageAddress env ''aptos'' network = Inr packageId"
    "view (new_Aptos env network) (packageId @ ''::schema::schema_data'') [ArgString schemaAddr] = Inr schemas"
    "index0 schemas = Inr schema"
    "js_get schema ''tx_hash'' = Inr (apt_txHash a)"
  using assms unfolding getAptosSchema_def Let_def
  by (auto simp: bindE_Inr_iff split: if_splits)

text \<open>
  Claim C7, as amended. On Sui, getSchema sets \<^verbatim>\<open>txHash\<close> to the base58 text of
  the bytes of the on-chain \<^verbatim>\<open>tx_hash\<close> field whenever that field is present as a
  byte vector. On Aptos, getAptosSchema copies the \<^verbatim>\<open>tx_hash\<close> of the view's first
  element into \<^verbatim>\<open>txHash\<close> unchanged: no base58 encoding is applied.
\<close>

theorem tx_hash_decoding:
  "(getSchema rt u obj_id chain network = Inr s \<and>
    utils_getClient u chain network = Inr client \<and>
    getObject client obj_id
      [''showContent'', ''showType'', ''showOwner'', ''showPreviousTransaction''] = Inr response \<and>
    js_path response [''data'', ''content'', ''fields'', ''tx_hash''] = Inr h \<and>
    bytes_of h = Some bs
    \<longrightarrow> sui_txHash s = base58 bs) \<and>
   (getAptosSchema env aptos_network schemaAddr = Inr a \<and>
    getPackageAddress env ''aptos'' aptos_network = Inr packageId \<and>
    view (new_Aptos env aptos_network) (packageId @ ''::schema::schema_data'')
      [ArgString schemaAddr] = Inr schemas \<and>
    index0 schemas = Inr schema
    \<longrightarrow> apt_txHash a = js_get_opt schema ''tx_hash'')"
proof (intro conjI impI; elim conjE)
  assume ok: "getSchema rt u obj_id chain network = Inr s"
    and c: "utils_getClient u chain network = Inr client"
    and r: "getObject client obj_id
      [''showContent'', ''showType'', ''showOwner'', ''showPreviousTransaction''] = Inr response"
    and p: "js_path response [''data'', ''content'', ''fields'', ''tx_hash''] = Inr h"
    and b: "bytes_of h = Some bs"
  from ok obtain client' response' object content flds where
    c': "utils_getClient u chain network = Inr client'" and
    r': "getObject client' obj_id
       [''showContent'', ''showType'', ''showOwner'', ''showPreviousTransaction''] = Inr response'" and
    d: "js_get response' ''data'' = Inr object" "js_get object ''content'' = Inr content"
       "js_get content ''fields'' = Inr flds" and
    enc: "bindE (js_get flds ''tx_hash'') (bs58_encode rt) = Inr (sui_txHash s)"
    by (rule getSchema_InrD)
  from c c' r r' have "response' = response" by simp
  with d p have "js_get flds ''tx_hash'' = Inr h" by (simp add: bindE_Inr_iff)
  with enc b show "sui_txHash s = base58 bs"
    by (simp add: bs58_encode_def)
next
  assume ok: "getAptosSchema env aptos_network schemaAddr = Inr a"
    and pk: "getPackageAddress env ''aptos'' aptos_network = Inr packageId"
    and v: "view (new_Aptos env aptos_network) (packageId @ ''::schema::schema_data'')
      [ArgString schemaAddr] = Inr schemas"
    and i: "index0 schemas = Inr schema"
  from ok obtain packageId' schemas' schema' where
    "getPackageAddress env ''aptos'' aptos_network = Inr packageId'"
    "view (new_Aptos env aptos_network) (packageId' @ ''::schema::schema_data'') [ArgString schemaAddr] = Inr schemas'"
    "index0 schemas' = Inr schema'"
    "js_get schema' ''tx_hash'' = Inr (apt_txHash a)"
    by (rule getAptosSchema_InrD)
  with pk v i have "js_get schema ''tx_hash'' = Inr (apt_txHash a)" by simp
  then show "apt_txHash a = js_get_opt schema ''tx_hash''"
    by (simp add: js_get_opt_eq)
qed

theorem tx_hash_decoding_witness:
  "getSchema example_runtime example_utils (JStr ''0xSCHEMA_A'') ''sui'' ''testnet'' = Inr schema_A \<and>
   bytes_of (JArr [JNum 171]) = Some [171] \<and>
   sui_txHash schema_A = base58 [171] \<and>
   getAptosSchema example_aptos_env ''testnet'' ''0xSCHEMA'' = Inr example_aptos_schema \<and>
   apt_txHash example_aptos_schema = JStr ''0xab''"
proof -
  have a: "getSchema example_runtime example_utils (JStr ''0xSCHEMA_A'') ''sui'' ''testnet'' = Inr schema_A"
    by code_simp
  have c: "utils_getClient example_utils ''sui'' ''testnet'' = Inr example_client"
    by (simp add: example_utils_def utils_for_def)
  have r: "getObject example_client (JStr ''0xSCHEMA_A'')
      [''showContent'', ''showType'', ''showOwner'', ''showPreviousTransaction''] =
      Inr (schema_response ''0xSCHEMA_A'' fields_A)"
    by (simp add: example_client_def chain_client_def)
  have p: "js_path (schema_response ''0xSCHEMA_A'' fields_A)
      [''data'', ''content'', ''fields'', ''tx_hash''] = Inr (JArr [JNum 171])"
    by code_simp
  have b: "bytes_of (JArr [JNum 171]) = Some [171]"
    by simp
  have ap: "getAptosSchema example_aptos_env ''testnet'' ''0xSCHEMA'' = Inr example_aptos_schema"
    by code_simp
  have pk: "getPackageAddress example_aptos_env ''aptos'' ''testnet'' = Inr ''0xAAS''"
    by (simp add: example_aptos_env_def)
  have v: "view (new_Aptos example_aptos_env ''testnet'') (''0xAAS'' @ ''::schema::schema_data'')
      [ArgString ''0xSCHEMA''] = Inr example_view_schema"
    by (simp add: example_aptos_env_def example_aptos_client_def)
  have i: "index0 example_view_schema = Inr (JObj [(''name'', JStr ''profile''),
                 (''description'', JStr ''a test schema''),
                 (''url'', JStr ''https://example.org''),
                 (''creator'', JStr ''0xCREATOR''),
                 (''created_at'', JStr ''1700000000''),
                 (''schema'', JStr ''0x010203''),
                 (''revokable'', JBool False),
                 (''resolver'', JStr ''0x0''),
                 (''tx_hash'', JStr ''0xab'')])"
    by (simp add: example_view_schema_def)
  note inst = tx_hash_decoding [of example_runtime example_utils "JStr ''0xSCHEMA_A''" "''sui''" "''testnet''"
      schema_A example_client "schema_response ''0xSCHEMA_A'' fields_A" "JArr [JNum 171]" "[171]"
      example_aptos_env "''testnet''" "''0xSCHEMA''" example_aptos_schema "''0xAAS''" example_view_schema]
  from inst a c r p b have s: "sui_txHash schema_A = base58 [171]"
    by blast
  from inst ap pk v i have "apt_txHash example_aptos_schema = js_get_opt (JObj [(''name'', JStr ''profile''),
                 (''description'', JStr ''a test schema''),
                 (''url'', JStr ''https://example.org''),
                 (''creator'', JStr ''0xCREATOR''),
                 (''created_at'', JStr ''1700000000''),
                 (''schema'', JStr ''0x010203''),
                 (''revokable'', JBool False),
                 (''resolver'', JStr ''0x0''),
                 (''tx_hash'', JStr ''0xab'')]) ''tx_hash''"
    by blast
  then have t: "apt_txHash example_aptos_schema = JStr ''0xab''"
    by simp
  from a b s ap t show ?thesis by simp
qed

text \<open>
  Claim C7 as stated fails on Aptos: for a schema whose view reports the hash
  \<^verbatim>\<open>0xab\<close>, the entity's \<^verbatim>\<open>txHash\<close> is that hex text, while the base58 text
  of the hash byte is \<^verbatim>\<open>3x\<close>.
\<close>

theorem tx_hash_aptos_counterexample:
  "getAptosSchema example_aptos_env ''testnet'' ''0xSCHEMA'' = Inr example_aptos_schema \<and>
   apt_txHash example_aptos_schema = JStr ''0xab'' \<and>
   Hex_fromHexString (JStr ''0xab'') = Inr [171] \<and>
   base58 [171] = ''3x''"
  by code_simp


section \<open>The not-found guards of the Aptos read functions\<close>

lemma bindE_neq_Inl:
  assumes "r \<noteq> Inl e" and "\<And>x. r = Inr x \<Longrightarrow> f x \<noteq> Inl e"
  shows "bindE r f \<noteq> Inl e"
  using assms by (cases r) simp_all

lemma js_get_not_Error: "js_get v k \<noteq> Inl (Error m)"
  by (cases v) simp_all

lemma index0_not_Error: "index0 v \<noteq> Inl (Error m)"
  by (cases v) simp_all

lemma Hex_fromHexString_not_Error: "Hex_fromHexString v \<noteq> Inl (Error m)"
  by (auto simp: Hex_fromHexString_def Let_def split: json.splits if_splits option.splits)

lemma read_hex_not_Error: "bindE (js_get v k) Hex_fromHexString \<noteq> Inl (Error m)"
  by (intro bindE_neq_Inl js_get_not_Error Hex_fromHexString_not_Error)


text \<open>
  Claim C9. In getAptosSchema and getAptosAttestation, once the view call has been made
  and has answered with an array, the guard \<^verbatim>\<open>if (!schemas)\<close> (\<^verbatim>\<open>if (!res)\<close>)
  does not fire, whatever the array holds: the function does not fail with
  \<^verbatim>\<open>Schema not found\<close> (\<^verbatim>\<open>Attestation not found\<close>). For the empty array the
  first element is \<^verbatim>\<open>undefined\<close> and the function fails with a TypeError instead.
\<close>

theorem not_found_guard_unreachable:
  assumes "getPackageAddress env ''aptos'' network = Inr packageId"
  shows "(view (new_Aptos env network) (packageId @ ''::schema::schema_data'')
            [ArgString schemaAddr] = Inr (JArr xs)
          \<longrightarrow> getAptosSchema env network schemaAddr \<noteq> Inl (Error ''Schema not found'') \<and>
              (xs = [] \<longrightarrow> getAptosSchema env network schemaAddr = Inl TypeError)) \<and>
         (view (new_Aptos env network) (packageId @ ''::attestation::attestation_data'')
            [ArgString attestationAddr] = Inr (JArr ys)
          \<longrightarrow> getAptosAttestation env network attestationAddr \<noteq> Inl (Error ''Attestation not found'') \<and>
              (ys = [] \<longrightarrow> getAptosAttestation env network attestationAddr = Inl TypeError))"
proof (intro conjI impI)
  assume v: "view (new_Aptos env network) (packageId @ ''::schema::schema_data'')
            [ArgString schemaAddr] = Inr (JArr xs)"
  have "getAptosSchema env network schemaAddr =
      bindE (index0 (JArr xs)) (\<lambda>schema.
      bindE (js_get schema ''name'') (\<lambda>name.
      bindE (js_get schema ''description'') (\<lambda>description.
      bindE (js_get schema ''url'') (\<lambda>url.
      bindE (js_get schema ''creator'') (\<lambda>creator.
      bindE (js_get schema ''created_at'') (\<lambda>created_at.
      bindE (bindE (js_get schema ''schema'') Hex_fromHexString) (\<lambda>schema_bytes.
      bindE (js_get schema ''revokable'') (\<lambda>revokable.
      bindE (js_get schema ''resolver'') (\<lambda>resolver.
      bindE (js_get schema ''tx_hash'') (\<lambda>tx_hash.
        Inr \<lparr> apt_schemaAddr = schemaAddr, apt_name = name, apt_description = description,
              apt_url = url, apt_creator = creator, apt_createdAt = created_at,
              apt_schema = schema_bytes, apt_revokable = revokable, apt_resolver = resolver,
              apt_txHash = tx_hash \<rparr>))))))))))"
    using assms v unfolding getAptosSchema_def Let_def by simp
  then show "getAptosSchema env network schemaAddr \<noteq> Inl (Error ''Schema not found'')"
    by (simp only:) (intro bindE_neq_Inl js_get_not_Error index0_not_Error read_hex_not_Error, simp)
  show "getAptosSchema env network schemaAddr = Inl TypeError" if "xs = []"
    using assms v that unfolding getAptosSchema_def Let_def by simp
next
  assume v: "view (new_Aptos env network) (packageId @ ''::attestation::attestation_data'')
            [ArgString attestationAddr] = Inr (JArr ys)"
  have "getAptosAttestation env network attestationAddr =
      bindE (index0 (JArr ys)) (\<lambda>attestation.
      bindE (js_get attestation ''attestor'') (\<lambda>attestor.
      bindE (js_get attestation ''recipient'') (\<lambda>recipient.
      bindE (js_get attestation ''schema'') (\<lambda>schema.
      bindE (js_get attestation ''ref_attestation'') (\<lambda>ref_attestation.
      bindE (js_get attestation ''time'') (\<lambda>time.
      bindE (js_get attestation ''expiration_time'') (\<lambda>expiration_time.
      bindE (js_get attestation ''revocation_time'') (\<lambda>revocation_time.
      bindE (js_get attestation ''revokable'') (\<lambda>revokable.
      bindE (bindE (js_get attestation ''data'') Hex_fromHexString) (\<lambda>data.
      bindE (js_get attestation ''tx_hash'') (\<lambda>tx_hash.
        Inr \<lparr> att_attestationAddr = attestationAddr, att_attestor = attestor,
              att_recipient = recipient, att_schemaAddr = schema,
              att_refAttestation = ref_attestation, att_time = time,
              att_expirationTime = expiration_time, att_revocationTime = revocation_time,
              att_revokable = revokable, att_data = data, att_txHash = tx_hash \<rparr>)))))))))))"
    using assms v unfolding getAptosAttestation_def Let_def by simp
  then show "getAptosAttestation env network attestationAddr \<noteq> Inl (Error ''Attestation not found'')"
    by (simp only:) (intro bindE_neq_Inl js_get_not_Error index0_not_Error read_hex_not_Error, simp)
  show "getAptosAttestation env network attestationAddr = Inl TypeError" if "ys = []"
    using assms v that unfolding getAptosAttestation_def Let_def by simp
qed

theorem not_found_guard_unreachable_witness:
  "getPackageAddress example_aptos_env ''aptos'' ''testnet'' = Inr ''0xAAS'' \<and>
   view (new_Aptos example_aptos_env ''testnet'') (''0xAAS'' @ ''::schema::schema_data'')
     [ArgString ''0xEMPTY''] = Inr (JArr []) \<and>
   getAptosSchema example_aptos_env ''testnet'' ''0xEMPTY'' = Inl TypeError \<and>
   view (new_Aptos example_aptos_env ''testnet'') (''0xAAS'' @ ''::attestation::attestation_data'')
     [ArgString ''0xEMPTY''] = Inr (JArr []) \<and>
   getAptosAttestation example_aptos_env ''testnet'' ''0xEMPTY'' = Inl TypeError"
proof -
  have pk: "getPackageAddress example_aptos_env ''aptos'' ''testnet'' = Inr ''0xAAS''"
    by (simp add: example_aptos_env_def)
  have v1: "view (new_Aptos example_aptos_env ''testnet'') (''0xAAS'' @ ''::schema::schema_data'')
     [ArgString ''0xEMPTY''] = Inr (JArr [])"
    by (simp add: example_aptos_env_def example_aptos_client_def)
  have v2: "view (new_Aptos example_aptos_env ''testnet'') (''0xAAS'' @ ''::attestation::attestation_data'')
     [ArgString ''0xEMPTY''] = Inr (JArr [])"
    by (simp add: example_aptos_env_def example_aptos_client_def)
  from not_found_guard_unreachable [OF pk, of "''0xEMPTY''" "[]" "''0xEMPTY''" "[]"] v1 v2
  have "getAptosSchema example_aptos_env ''testnet'' ''0xEMPTY'' = Inl TypeError \<and>
        getAptosAttestation example_aptos_env ''testnet'' ''0xEMPTY'' = Inl TypeError"
    by blast
  with pk v1 v2 show ?thesis by blast
qed


section \<open>Listing the schemas of the registry table\<close>

lemma promise_all_map_Inr: "promise_all (map Inr xs) = Inr xs"
  by (induction xs) simp_all

lemma promise_all_InrD: "promise_all rs = Inr xs \<Longrightarrow> rs = map Inr xs"
  by (induction rs arbitrary: xs rule: promise_all.induct) (auto split: sum.splits)

lemma promise_all_Inr_iff: "promise_all rs = Inr xs \<longleftrightarrow> rs = map Inr xs"
  using promise_all_InrD promise_all_map_Inr by blast

lemma promise_all_rejects: "r \<in> set rs \<Longrightarrow> r = Inl e \<Longrightarrow> \<exists>e'. promise_all rs = Inl e'"
proof (cases "promise_all rs")
  case (Inl e')
  then show ?thesis by blast
next
  case (Inr xs)
  assume "r \<in> set rs" "r = Inl e"
  with Inr show ?thesis by (auto simp: promise_all_Inr_iff)
qed

lemma getSchemas_eq:
  assumes "utils_getClient u chain network = Inr client"
      and "utils_getSchemaRegistryTableId u chain network = Inr tableId"
      and "getDynamicFields client tableId JUndefined = Inr tableData"
      and "js_get tableData ''data'' = Inr (JArr items)"
  shows "getSchemas rt u chain network =
           promise_all (map (getSchemas_item rt u client chain network) items)"
  using assms by (simp add: getSchemas_def)


text \<open>
  Claim C2. For every table listing, if the fetch of at least one listed entry fails,
  getSchemas as a whole rejects: it returns no list, so no partial one.
\<close>

theorem getSchemas_fail_fast:
  assumes "utils_getClient u chain network = Inr client"
      and "utils_getSchemaRegistryTableId u chain network = Inr tableId"
      and "getDynamicFields client tableId JUndefined = Inr tableData"
      and "js_get tableData ''data'' = Inr (JArr items)"
      and "dataItem \<in> set items"
      and "getSchemas_item rt u client chain network dataItem = Inl e"
  shows "\<exists>e'. getSchemas rt u chain network = Inl e'"
proof -
  from assms(5,6) have "Inl e \<in> set (map (getSchemas_item rt u client chain network) items)"
    by force
  then have "\<exists>e'. promise_all (map (getSchemas_item rt u client chain network) items) = Inl e'"
    by (rule promise_all_rejects) simp
  with getSchemas_eq [OF assms(1-4)] show ?thesis by simp
qed

theorem getSchemas_fail_fast_witness:
  "getSchemas_item example_runtime broken_utils broken_client
     ''sui'' ''testnet'' (JObj [(''objectId'', JStr ''0xITEM_A'')]) = Inr schema_A \<and>
   getSchemas_item example_runtime broken_utils broken_client
     ''sui'' ''testnet'' (JObj [(''objectId'', JStr ''0xITEM_GONE'')]) = Inl TypeError \<and>
   (\<exists>e. getSchemas example_runtime broken_utils ''sui'' ''testnet'' = Inl e)"
proof -
  let ?c = broken_client
  have c: "utils_getClient broken_utils ''sui'' ''testnet'' = Inr ?c"
    by (simp add: broken_utils_def utils_for_def)
  have t: "utils_getSchemaRegistryTableId broken_utils ''sui'' ''testnet'' = Inr (JStr ''0xTABLE'')"
    by (simp add: broken_utils_def utils_for_def)
  have l: "getDynamicFields ?c (JStr ''0xTABLE'') JUndefined = Inr page_broken"
    by (simp add: broken_client_def chain_client_def)
  have d: "js_get page_broken ''data'' = Inr (JArr [JObj [(''objectId'', JStr ''0xITEM_A'')],
                                        JObj [(''objectId'', JStr ''0xITEM_GONE'')]])"
    by (simp add: page_broken_def)
  have ok: "getSchemas_item example_runtime broken_utils ?c
     ''sui'' ''testnet'' (JObj [(''objectId'', JStr ''0xITEM_A'')]) = Inr schema_A"
    by code_simp
  have bad: "getSchemas_item example_runtime broken_utils ?c
     ''sui'' ''testnet'' (JObj [(''objectId'', JStr ''0xITEM_GONE'')]) = Inl TypeError"
    by code_simp
  have m: "JObj [(''objectId'', JStr ''0xITEM_GONE'')] \<in>
      set [JObj [(''objectId'', JStr ''0xITEM_A'')], JObj [(''objectId'', JStr ''0xITEM_GONE'')]]"
    by simp
  from getSchemas_fail_fast [OF c t l d m bad] ok bad show ?thesis by blast
qed



text \<open>
  Claim C1, as amended. getSchemas asks for the listing once, without a cursor. It
  returns a list exactly when the fetch of every entry of that first page succeeds, and
  the list then holds the decoded entity of each entry of the first page, one per entry
  and in the page's order. The continuation cursor of the page is not followed: entries
  of later pages are not returned.
\<close>

theorem getSchemas_first_page:
  assumes "utils_getClient u chain network = Inr client"
      and "utils_getSchemaRegistryTableId u chain network = Inr tableId"
      and "getDynamicFields client tableId JUndefined = Inr tableData"
      and "js_get tableData ''data'' = Inr (JArr items)"
  shows "getSchemas rt u chain network = Inr schemas \<longleftrightarrow>
           map (getSchemas_item rt u client chain network) items = map Inr schemas"
  using getSchemas_eq [OF assms] by (simp add: promise_all_Inr_iff)

theorem getSchemas_first_page_witness:
  "getSchemas example_runtime example_utils ''sui'' ''testnet'' = Inr [schema_A]"
proof -
  have c: "utils_getClient example_utils ''sui'' ''testnet'' = Inr example_client"
    by (simp add: example_utils_def utils_for_def)
  have t: "utils_getSchemaRegistryTableId example_utils ''sui'' ''testnet'' = Inr (JStr ''0xTABLE'')"
    by (simp add: example_utils_def utils_for_def)
  have l: "getDynamicFields example_client (JStr ''0xTABLE'') JUndefined = Inr page_one"
    by (simp add: example_client_def chain_client_def)
  have d: "js_get page_one ''data'' = Inr (JArr [JObj [(''objectId'', JStr ''0xITEM_A'')]])"
    by (simp add: page_one_def)
  have ok: "getSchemas_item example_runtime example_utils example_client
     ''sui'' ''testnet'' (JObj [(''objectId'', JStr ''0xITEM_A'')]) = Inr schema_A"
    by code_simp
  from getSchemas_first_page [OF c t l d, of example_runtime "[schema_A]"] ok
  show ?thesis by simp
qed


text \<open>
  Claim C1 as stated fails: on a table listed in two pages of one entry each, getSchemas
  returns the schema of the first page's entry alone, although following the cursor gives
  two entries and the second one decodes to a schema of its own.
\<close>

theorem getSchemas_pagination_counterexample:
  "getSchemas example_runtime example_utils ''sui'' ''testnet'' = Inr [schema_A] \<and>
   entries_of_all_pages 2 example_client (JStr ''0xTABLE'') JUndefined =
     Some [JObj [(''objectId'', JStr ''0xITEM_A'')], JObj [(''objectId'', JStr ''0xITEM_B'')]] \<and>
   getSchemas_item example_runtime example_utils example_client ''sui'' ''testnet''
     (JObj [(''objectId'', JStr ''0xITEM_B'')]) = Inr schema_B \<and>
   schema_B \<noteq> schema_A"
  by code_simp



section \<open>Resolving the current records table\<close>

lemma js_path_opt_chain:
  "js_path (js_get_opt data k) (k' # ks) = js_path data (k # k' # ks)"
  by (cases data) simp_all

lemma js_get_Inr_opt: "js_get v k = Inr w \<Longrightarrow> js_get v k' = Inr (js_get_opt v k')"
  by (cases v) simp_all

lemma getSchemaRegistry_eq:
  assumes c: "utils_getClient u chain network = Inr client"
      and rid: "utils_getSchemaRegistryId u chain network = Inr schemaRegistryId"
      and resp: "getObject client (JStr schemaRegistryId) [''showContent'', ''showType''] = Inr response"
      and noerr: "\<not> truthy (js_get_opt response ''error'')"
      and inner: "js_path response [''data'', ''content'', ''fields'', ''inner'', ''fields'', ''id'', ''id'']
                    = Inr inner_id"
      and ver: "js_path response [''data'', ''content'', ''fields'', ''inner'', ''fields'', ''version'']
                    = Inr version"
  shows "getSchemaRegistry rt u chain network =
           Inr \<lparr> reg_id = js_get_opt (js_get_opt response ''data'') ''objectId'',
                 reg_version = \<lparr> ver_id = inner_id, ver_version = version \<rparr> \<rparr>"
proof -
  from inner obtain object content flds where
    d: "js_get response ''data'' = Inr object" and
    ct: "js_get object ''content'' = Inr content" and
    f: "js_get content ''fields'' = Inr flds" and
    i: "js_path flds [''inner'', ''fields'', ''id'', ''id''] = Inr inner_id"
    by (auto simp: bindE_Inr_iff)
  from ver d ct f have v: "js_path flds [''inner'', ''fields'', ''version''] = Inr version"
    by (simp add: bindE_Inr_iff)
  from d have e: "js_get response ''error'' = Inr (js_get_opt response ''error'')"
    by (rule js_get_Inr_opt)
  from ct have o: "js_get object ''objectId'' = Inr (js_get_opt object ''objectId'')"
    by (rule js_get_Inr_opt)
  from d have od: "js_get_opt response ''data'' = object"
    by (rule js_get_opt_eq)
  have p: "js_path object [''content'', ''fields''] = Inr flds"
    using ct f by simp
  show ?thesis
    unfolding getSchemaRegistry_def
    by (simp only: c rid resp e noerr d p o i v od bindE_Inr if_False)
qed

text \<open>
  Claim C6. Resolving the current records table takes two hops. The first reads the
  registry object and takes from it the id of the registry's inner object and the
  version number (this is what getSchemaRegistry returns as the version pointer). The
  second asks for the dynamic field of that inner id whose name is the version number,
  typed \<^verbatim>\<open>u64\<close>; the table identifier returned is the one stored in the object
  found under exactly that key (and the call fails as that lookup or its decoding does).
\<close>

theorem table_resolution_two_hops:
  assumes c: "utils_getClient u chain network = Inr client"
      and rid: "utils_getSchemaRegistryId u chain network = Inr schemaRegistryId"
      and resp: "getObject client (JStr schemaRegistryId) [''showContent'', ''showType''] = Inr response"
      and noerr: "\<not> truthy (js_get_opt response ''error'')"
      and inner: "js_path response [''data'', ''content'', ''fields'', ''inner'', ''fields'', ''id'', ''id'']
                    = Inr inner_id"
      and ver: "js_path response [''data'', ''content'', ''fields'', ''inner'', ''fields'', ''version'']
                    = Inr version"
  shows "getSchemaRegistry rt u chain network =
           Inr \<lparr> reg_id = js_get_opt (js_get_opt response ''data'') ''objectId'',
                 reg_version = \<lparr> ver_id = inner_id, ver_version = version \<rparr> \<rparr> \<and>
         getSchemaRegistryTable rt u chain network =
           bindE (getDynamicFieldObject client inner_id ''u64'' version) (\<lambda>res.
             js_path res [''data'', ''content'', ''fields'', ''value'', ''fields'',
                          ''schema_records'', ''fields'', ''id'', ''id''])"
proof -
  note reg = getSchemaRegistry_eq [OF assms, of rt]
  have "bindE (js_get res ''data'') (\<lambda>data. js_path (js_get_opt data ''content'')
           [''fields'', ''value'', ''fields'', ''schema_records'', ''fields'', ''id'', ''id'']) =
        js_path res [''data'', ''content'', ''fields'', ''value'', ''fields'',
                          ''schema_records'', ''fields'', ''id'', ''id'']" for res
    by (simp only: js_path_opt_chain) simp
  then have "getSchemaRegistryTable rt u chain network =
           bindE (getDynamicFieldObject client inner_id ''u64'' version) (\<lambda>res.
             js_path res [''data'', ''content'', ''fields'', ''value'', ''fields'',
                          ''schema_records'', ''fields'', ''id'', ''id''])"
    unfolding getSchemaRegistryTable_def by (simp add: c reg)
  with reg show ?thesis by simp
qed

theorem table_resolution_two_hops_witness:
  "getSchemaRegistry example_runtime example_utils ''sui'' ''testnet'' =
     Inr \<lparr> reg_id = JStr ''0xREG'',
           reg_version = \<lparr> ver_id = JStr ''0xINNER'', ver_version = JStr ''1'' \<rparr> \<rparr> \<and>
   getDynamicFieldObject example_client (JStr ''0xINNER'') ''u64'' (JStr ''1'') = Inr table_field_response \<and>
   getSchemaRegistryTable example_runtime example_utils ''sui'' ''testnet'' = Inr (JStr ''0xTABLE'')"
proof -
  have c: "utils_getClient example_utils ''sui'' ''testnet'' = Inr example_client"
    by (simp add: example_utils_def utils_for_def)
  have rid: "utils_getSchemaRegistryId example_utils ''sui'' ''testnet'' = Inr ''0xREG''"
    by (simp add: example_utils_def utils_for_def)
  have resp: "getObject example_client (JStr ''0xREG'') [''showContent'', ''showType''] =
      Inr (registry_response (JStr ''1''))"
    by (simp add: example_client_def chain_client_def)
  have noerr: "\<not> truthy (js_get_opt (registry_response (JStr ''1'')) ''error'')"
    by code_simp
  have inner: "js_path (registry_response (JStr ''1''))
      [''data'', ''content'', ''fields'', ''inner'', ''fields'', ''id'', ''id''] = Inr (JStr ''0xINNER'')"
    by code_simp
  have ver: "js_path (registry_response (JStr ''1''))
      [''data'', ''content'', ''fields'', ''inner'', ''fields'', ''version''] = Inr (JStr ''1'')"
    by code_simp
  have oid: "js_get_opt (js_get_opt (registry_response (JStr ''1'')) ''data'') ''objectId'' = JStr ''0xREG''"
    by code_simp
  have dyn: "getDynamicFieldObject example_client (JStr ''0xINNER'') ''u64'' (JStr ''1'') =
      Inr table_field_response"
    by (simp add: example_client_def chain_client_def)
  have tab: "js_path table_field_response [''data'', ''content'', ''fields'', ''value'', ''fields'',
      ''schema_records'', ''fields'', ''id'', ''id''] = Inr (JStr ''0xTABLE'')"
    by code_simp
  from table_resolution_two_hops [OF c rid resp noerr inner ver, of example_runtime] oid dyn tab
  show ?thesis by (simp del: js_path.simps)
qed


lemma js_path_no_data:
  assumes "js_get_opt res ''data'' = JUndefined \<or> js_get_opt res ''data'' = JNull"
  shows "bindE (js_get res ''data'') (\<lambda>data. js_path (js_get_opt data ''content'') (k # ks)) =
           Inl TypeError"
proof (cases "js_get res ''data''")
  case (Inl e)
  then show ?thesis by (simp add: js_get_error)
next
  case (Inr data)
  with assms have "data = JUndefined \<or> data = JNull"
    by (auto simp: js_get_opt_eq)
  with Inr show ?thesis by auto
qed

text \<open>
  Claim C3, as amended. For every registry whose version pointer names a dynamic field
  that does not exist, getSchemaRegistryTable fails with the TypeError of reading a
  property of \<^verbatim>\<open>undefined\<close> when the client answers without data, and with the
  client's own rejection when the client rejects. The code has no error of its own for
  a stale version.
\<close>

theorem stale_version_failure:
  assumes "utils_getClient u chain network = Inr client"
      and "getSchemaRegistry rt u chain network = Inr registry"
  shows "(getDynamicFieldObject client (ver_id (reg_version registry)) ''u64''
            (ver_version (reg_version registry)) = Inr res \<and>
          (js_get_opt res ''data'' = JUndefined \<or> js_get_opt res ''data'' = JNull)
          \<longrightarrow> getSchemaRegistryTable rt u chain network = Inl TypeError) \<and>
         (getDynamicFieldObject client (ver_id (reg_version registry)) ''u64''
            (ver_version (reg_version registry)) = Inl e
          \<longrightarrow> getSchemaRegistryTable rt u chain network = Inl e)"
  using assms unfolding getSchemaRegistryTable_def
  by (auto simp: js_path_no_data simp del: js_path.simps)

theorem stale_version_failure_witness:
  "getSchemaRegistry example_runtime stale_utils ''sui'' ''testnet'' =
     Inr \<lparr> reg_id = JStr ''0xREG'',
           reg_version = \<lparr> ver_id = JStr ''0xINNER'', ver_version = JStr ''2'' \<rparr> \<rparr> \<and>
   getDynamicFieldObject stale_client (JStr ''0xINNER'') ''u64'' (JStr ''2'') =
     Inr (JObj [(''error'', JObj [(''code'', JStr ''dynamicFieldNotFound'')])]) \<and>
   getSchemaRegistryTable example_runtime stale_utils ''sui'' ''testnet'' = Inl TypeError"
proof -
  let ?reg = "\<lparr> reg_id = JStr ''0xREG'',
           reg_version = \<lparr> ver_id = JStr ''0xINNER'', ver_version = JStr ''2'' \<rparr> \<rparr>"
  let ?res = "JObj [(''error'', JObj [(''code'', JStr ''dynamicFieldNotFound'')])]"
  have c: "utils_getClient stale_utils ''sui'' ''testnet'' = Inr stale_client"
    by (simp add: stale_utils_def utils_for_def)
  have reg: "getSchemaRegistry example_runtime stale_utils ''sui'' ''testnet'' = Inr ?reg"
    by code_simp
  have dyn: "getDynamicFieldObject stale_client (JStr ''0xINNER'') ''u64'' (JStr ''2'') = Inr ?res"
    by (simp add: stale_client_def chain_client_def)
  have nodata: "js_get_opt ?res ''data'' = JUndefined"
    by simp
  from stale_version_failure [OF c reg, of ?res] dyn nodata
  have "getSchemaRegistryTable example_runtime stale_utils ''sui'' ''testnet'' = Inl TypeError"
    by simp
  with reg dyn show ?thesis by simp
qed

text \<open>
  Claim C3 as stated fails: with the registry pointing at a version that has no dynamic
  field, the call fails with the same TypeError it fails with when the field exists but
  does not decode, so a stale version is not told apart from a decode failure.
\<close>

theorem stale_version_counterexample:
  "getDynamicFieldObject stale_client (JStr ''0xINNER'') ''u64'' (JStr ''2'') =
     Inr (JObj [(''error'', JObj [(''code'', JStr ''dynamicFieldNotFound'')])]) \<and>
   getSchemaRegistryTable example_runtime stale_utils ''sui'' ''testnet'' = Inl TypeError \<and>
   getDynamicFieldObject malformed_client (JStr ''0xINNER'') ''u64'' (JStr ''3'') =
     Inr malformed_field_response \<and>
   getSchemaRegistryTable example_runtime malformed_utils ''sui'' ''testnet'' = Inl TypeError"
  by code_simp

end
